theory Spec2Isabelle
  imports Main "HOL-Library.Sublist"
begin

section \<open>Time values of the JavaScript \<open>Date\<close> object\<close>

text \<open>
  A \<open>Date\<close> holds a time value: milliseconds since 1970-01-01T00:00:00Z. The calendar
  arithmetic below follows the ECMAScript definitions (\<open>Day\<close>, \<open>TimeWithinDay\<close>,
  \<open>WeekDay\<close>, \<open>MakeDay\<close>, \<open>MakeTime\<close>, \<open>MakeDate\<close>). Local time is UTC plus a constant
  offset \<open>tza\<close> of the process (daylight-saving changes are not modelled), and time values
  are unbounded integers (the range limit of \<open>TimeClip\<close> is not modelled).
\<close>

definition msPerDay :: int where "msPerDay = 86400000"
definition msPerHour :: int where "msPerHour = 3600000"
definition msPerMinute :: int where "msPerMinute = 60000"
definition msPerSecond :: int where "msPerSecond = 1000"

definition Day :: "int \<Rightarrow> int" where
  "Day t = t div msPerDay"

definition TimeWithinDay :: "int \<Rightarrow> int" where
  "TimeWithinDay t = t mod msPerDay"

definition WeekDay :: "int \<Rightarrow> int" where
  "WeekDay t = (Day t + 4) mod 7"

definition HourFromTime :: "int \<Rightarrow> int" where
  "HourFromTime t = (t div msPerHour) mod 24"

definition MinFromTime :: "int \<Rightarrow> int" where
  "MinFromTime t = (t div msPerMinute) mod 60"

definition MakeTime :: "int \<Rightarrow> int \<Rightarrow> int \<Rightarrow> int \<Rightarrow> int" where
  "MakeTime h m s ms = h * msPerHour + m * msPerMinute + s * msPerSecond + ms"

definition MakeDate :: "int \<Rightarrow> int \<Rightarrow> int" where
  "MakeDate day time = day * msPerDay + time"

definition DayFromYear :: "int \<Rightarrow> int" where
  "DayFromYear y =
     365 * (y - 1970) + (y - 1969) div 4 - (y - 1901) div 100 + (y - 1601) div 400"

definition InLeapYear :: "int \<Rightarrow> bool" where
  "InLeapYear y =
     (if y mod 4 \<noteq> 0 then False else if y mod 100 \<noteq> 0 then True else y mod 400 = 0)"

text \<open>Day within the year at which month \<open>m\<close> (0 = January) starts.\<close>

definition MonthStart :: "bool \<Rightarrow> int \<Rightarrow> int" where
  "MonthStart leap m =
     [0, 31, 59, 90, 120, 151, 181, 212, 243, 273, 304, 334] ! nat (m mod 12)
       + (if leap \<and> 2 \<le> m mod 12 then 1 else 0)"

definition DaysInMonth :: "int \<Rightarrow> int \<Rightarrow> int" where
  "DaysInMonth y m =
     (if m mod 12 = 1 then (if InLeapYear y then 29 else 28)
      else [31, 28, 31, 30, 31, 30, 31, 31, 30, 31, 30, 31] ! nat (m mod 12))"

text \<open>\<open>MakeDay year month date\<close>: \<open>month\<close> is 0-based and may lie outside 0..11, \<open>date\<close>
  may lie outside the month; both carry over.\<close>

definition MakeDay :: "int \<Rightarrow> int \<Rightarrow> int \<Rightarrow> int" where
  "MakeDay year month date =
     (let ym = year + month div 12;
          mn = month mod 12
      in DayFromYear ym + MonthStart (InLeapYear ym) mn + date - 1)"

text \<open>Day of the month (1..31) of a day number: the civil-from-days computation on
  400-year eras that start on 1 March.\<close>

definition DateFromDay :: "int \<Rightarrow> int" where
  "DateFromDay days =
     (let z = days + 719468;
          doe = z mod 146097;
          yoe = (doe - doe div 1460 + doe div 36524 - doe div 146096) div 365;
          doy = doe - (365 * yoe + yoe div 4 - yoe div 100);
          mp = (5 * doy + 2) div 153
      in doy - (153 * mp + 2) div 5 + 1)"

definition DateFromTime :: "int \<Rightarrow> int" where
  "DateFromTime t = DateFromDay (Day t)"

definition LocalTime :: "int \<Rightarrow> int \<Rightarrow> int" where
  "LocalTime tza t = t + tza"

definition UTC :: "int \<Rightarrow> int \<Rightarrow> int" where
  "UTC tza t = t - tza"

text \<open>The methods of \<open>Date\<close> the program calls, on the time value \<open>t\<close> of the object.
  \<open>setDate\<close> and \<open>setHours\<close> return the new time value of the mutated object.
  \<open>setDate dt\<close> is \<open>MakeDay\<close> of the object's own year and month with day \<open>dt\<close>, that is
  the first day of the object's month plus \<open>dt - 1\<close> days; the first day of the month is
  \<open>Day - DateFromTime + 1\<close>.\<close>

definition getDay :: "int \<Rightarrow> int \<Rightarrow> int" where
  "getDay tza t = WeekDay (LocalTime tza t)"

definition getDate :: "int \<Rightarrow> int \<Rightarrow> int" where
  "getDate tza t = DateFromTime (LocalTime tza t)"

definition getHours :: "int \<Rightarrow> int \<Rightarrow> int" where
  "getHours tza t = HourFromTime (LocalTime tza t)"

definition getMinutes :: "int \<Rightarrow> int \<Rightarrow> int" where
  "getMinutes tza t = MinFromTime (LocalTime tza t)"

definition setDate :: "int \<Rightarrow> int \<Rightarrow> int \<Rightarrow> int" where
  "setDate tza t dt =
     (let lt = LocalTime tza t
      in UTC tza (MakeDate (Day lt - DateFromTime lt + 1 + dt - 1) (TimeWithinDay lt)))"

definition setHours :: "int \<Rightarrow> int \<Rightarrow> int \<Rightarrow> int \<Rightarrow> int \<Rightarrow> int \<Rightarrow> int" where
  "setHours tza t h m s ms =
     (let lt = LocalTime tza t
      in UTC tza (MakeDate (Day lt) (MakeTime h m s ms)))"

section \<open>The week window\<close>

text \<open>
  \<open>getWeekBounds\<close> (the same text in both versions of \<open>getData.ts\<close>). \<open>now\<close> is the
  clock reading of \<open>new Date()\<close>. \<open>toISOString\<close> renders an instant as a UTC text from
  which \<open>new Date\<close> recovers the same instant, so \<open>timeMin\<close> and \<open>timeMax\<close> are kept as
  instants.
\<close>

record week_bounds =
  timeMin :: int
  timeMax :: int

definition getWeekBounds :: "int \<Rightarrow> int \<Rightarrow> week_bounds" where
  "getWeekBounds tza now =
     (let day = getDay tza now;
          diff = getDate tza now - day + (if day = 0 then - 6 else 1);
          weekStart = now;
          weekStart = setDate tza weekStart diff;
          weekStart = setHours tza weekStart 0 0 0 0;
          weekEnd = weekStart;
          weekEnd = setDate tza weekEnd (getDate tza weekStart + 7);
          weekEnd = setHours tza weekEnd 23 59 59 999
      in \<lparr>timeMin = weekStart, timeMax = weekEnd\<rparr>)"

text \<open>The local day number of the Monday on or before the day of the local time \<open>lt\<close>,
  as \<open>diff\<close> computes it.\<close>

abbreviation mondayOf :: "int \<Rightarrow> int" where
  "mondayOf lt \<equiv> Day lt - WeekDay lt + (if WeekDay lt = 0 then - 6 else 1)"

section \<open>Strings\<close>

text \<open>
  A string is a list of 8-bit characters; a payload is taken to be in that range, where
  the line terminators are LF and CR and the white space of \<open>trim\<close> is TAB, LF, VT, FF,
  CR, SPACE and NBSP.
\<close>

fun indexOf :: "string \<Rightarrow> string \<Rightarrow> int" where
  "indexOf [] p = (if p = [] then 0 else - 1)"
| "indexOf (c # cs) p =
     (if prefix p (c # cs) then 0
      else (let k = indexOf cs p in if k = - 1 then - 1 else k + 1))"

definition includes_str :: "string \<Rightarrow> string \<Rightarrow> bool" where
  "includes_str s p = (indexOf s p \<noteq> - 1)"

definition substring :: "string \<Rightarrow> nat \<Rightarrow> nat \<Rightarrow> string" where
  "substring s a b = take (b - a) (drop a s)"

function split :: "string \<Rightarrow> string \<Rightarrow> string list" where
  "split s sep =
     (if sep = [] then map (\<lambda>c. [c]) s
      else (let k = indexOf s sep
            in if k = - 1 then [s]
               else take (nat k) s # split (drop (nat k + length sep) s) sep))"
  by pat_completeness auto
termination
proof (relation "measure (\<lambda>(s, sep). length s)")
  show "wf (measure (\<lambda>(s, sep). length s))"
    by simp
next
  fix s sep :: string and k :: int
  assume sep: "sep \<noteq> []" and k: "k = indexOf s sep" "k \<noteq> - 1"
  from sep k have "s \<noteq> []"
    by (cases s) auto
  with sep show "((drop (nat k + length sep) s, sep), (s, sep)) \<in> measure (\<lambda>(s, sep). length s)"
    by simp
qed

declare split.simps [simp del]

definition isLineTerminator :: "char \<Rightarrow> bool" where
  "isLineTerminator c = (c = CHR 0x0A \<or> c = CHR 0x0D)"

definition isWhiteSpace :: "char \<Rightarrow> bool" where
  "isWhiteSpace c = (c \<in> set [CHR 0x09, CHR 0x0A, CHR 0x0B, CHR 0x0C, CHR 0x0D, CHR 0x20, CHR 0xA0])"

definition trim :: "string \<Rightarrow> string" where
  "trim s = rev (dropWhile isWhiteSpace (rev (dropWhile isWhiteSpace s)))"

text \<open>
  \<open>regexCapture name seps s\<close> is group 1 of \<open>s.match(/name[seps](.+)/)\<close>, \<open>None\<close> when
  there is no match: the leftmost place where \<open>name\<close> is followed by one of \<open>seps\<close> and at
  least one character that is no line terminator; the group runs to the end of that line.
\<close>

fun regexCapture :: "string \<Rightarrow> string \<Rightarrow> string \<Rightarrow> string option" where
  "regexCapture name seps [] = None"
| "regexCapture name seps (c # cs) =
     (if prefix name (c # cs) then
        (case drop (length name) (c # cs) of
           sep # v # vs \<Rightarrow>
             (if sep \<in> set seps \<and> \<not> isLineTerminator v
              then Some (takeWhile (\<lambda>x. \<not> isLineTerminator x) (v # vs))
              else regexCapture name seps cs)
         | _ \<Rightarrow> regexCapture name seps cs)
      else regexCapture name seps cs)"

fun showNat :: "nat \<Rightarrow> string" where
  "showNat n =
     (if n < 10 then [''0123456789'' ! n]
      else showNat (n div 10) @ [''0123456789'' ! (n mod 10)])"

definition isDigit :: "char \<Rightarrow> bool" where
  "isDigit c = (48 \<le> (of_char c :: nat) \<and> (of_char c :: nat) \<le> 57)"

text \<open>\<open>Number\<close> of a string of decimal digits.\<close>

definition Number :: "string \<Rightarrow> int" where
  "Number s = foldl (\<lambda>a c. 10 * a + (int (of_char c) - 48)) 0 s"

text \<open>A fixed-width pattern: \<open>d\<close> stands for a decimal digit, any other character for
  itself.\<close>

definition matchesPattern :: "string \<Rightarrow> string \<Rightarrow> bool" where
  "matchesPattern pat s =
     list_all2 (\<lambda>p c. if p = CHR ''d'' then isDigit c else c = p) pat s"

section \<open>Parsing date strings\<close>

text \<open>
  \<open>Date_parse\<close> is the time value of \<open>new Date(string)\<close>, \<open>None\<close> for an Invalid Date.
  Three forms of the ECMAScript date-time format are computed: the date-only form (read
  as UTC), the date-time form without offset (read as local time) and the date-time form
  with \<open>Z\<close>, each with legal field values. Every other string is left to \<open>impl\<close>, the
  implementation-specific part of the engine's parser.
\<close>

definition legalFields :: "int \<Rightarrow> int \<Rightarrow> int \<Rightarrow> int \<Rightarrow> int \<Rightarrow> int \<Rightarrow> bool" where
  "legalFields y mo d h mi s =
     (1 \<le> mo \<and> mo \<le> 12 \<and> 1 \<le> d \<and> d \<le> DaysInMonth y (mo - 1)
      \<and> h \<le> 23 \<and> mi \<le> 59 \<and> s \<le> 59)"

definition Date_parse :: "int \<Rightarrow> (string \<Rightarrow> int option) \<Rightarrow> string \<Rightarrow> int option" where
  "Date_parse tza impl str =
     (let y = Number (substring str 0 4);
          mo = Number (substring str 5 7);
          d = Number (substring str 8 10);
          h = Number (substring str 11 13);
          mi = Number (substring str 14 16);
          s = Number (substring str 17 19);
          t = MakeDate (MakeDay y (mo - 1) d) (MakeTime h mi s 0)
      in if matchesPattern ''dddd-dd-dd'' str \<and> legalFields y mo d 0 0 0
           then Some (MakeDate (MakeDay y (mo - 1) d) 0)
         else if matchesPattern ''dddd-dd-ddTdd:dd:dd'' str \<and> legalFields y mo d h mi s
           then Some (UTC tza t)
         else if matchesPattern ''dddd-dd-ddTdd:dd:ddZ'' str \<and> legalFields y mo d h mi s
           then Some t
         else impl str)"

text \<open>\<open>new Date(year, month, day)\<close>: local midnight; a year from 0 to 99 means 1900 + year.\<close>

definition Date_of_fields :: "int \<Rightarrow> int \<Rightarrow> int \<Rightarrow> int \<Rightarrow> int" where
  "Date_of_fields tza year month day =
     (let yr = (if 0 \<le> year \<and> year \<le> 99 then 1900 + year else year)
      in UTC tza (MakeDate (MakeDay yr month day) (MakeTime 0 0 0 0)))"

section \<open>Canonical events and the feed parser\<close>

text \<open>\<open>CalendarEvent\<close>; the fields \<open>id\<close> and \<open>end\<close> are \<open>event_id\<close> and \<open>event_end\<close> here.\<close>

record calendar_event =
  event_id :: string
  title :: string
  start :: string
  event_end :: string
  allDay :: bool

definition parseICalDate :: "string \<Rightarrow> string" where
  "parseICalDate dateStr0 =
     (let dateStr = (if CHR '':'' \<in> set dateStr0
                     then drop 1 (dropWhile (\<lambda>c. c \<noteq> CHR '':'') dateStr0)
                     else dateStr0)
      in if length dateStr = 8 then
           substring dateStr 0 4 @ ''-'' @ substring dateStr 4 6 @ ''-'' @ substring dateStr 6 8
         else
           substring dateStr 0 4 @ ''-'' @ substring dateStr 4 6 @ ''-'' @ substring dateStr 6 8
             @ ''T'' @ substring dateStr 9 11 @ '':'' @ substring dateStr 11 13
             @ '':'' @ substring dateStr 13 15)"

text \<open>The body of the loop of \<open>fetchICalEvents\<close> for block \<open>i\<close>: \<open>None\<close> is
  \<open>continue\<close>, \<open>Some\<close> the event pushed.\<close>

definition parseEventBlock :: "nat \<Rightarrow> string \<Rightarrow> calendar_event option" where
  "parseEventBlock i block =
     (let endIndex = indexOf block ''END:VEVENT''
      in if endIndex = - 1 then None
         else
           (let eventData = substring block 0 (nat endIndex);
                summaryMatch = regexCapture ''SUMMARY'' '':'' eventData;
                startMatch = regexCapture ''DTSTART'' '';:'' eventData;
                endMatch = regexCapture ''DTEND'' '';:'' eventData;
                uidMatch = regexCapture ''UID'' '':'' eventData
            in case (startMatch, endMatch) of
                 (Some startGroup, Some endGroup) \<Rightarrow>
                   (let summary = (case summaryMatch of Some g \<Rightarrow> trim g
                                   | None \<Rightarrow> ''Untitled Event'');
                        startStr = trim startGroup;
                        endStr = trim endGroup;
                        uid = (case uidMatch of Some g \<Rightarrow> trim g
                               | None \<Rightarrow> ''event-'' @ showNat i);
                        isAllDay = (length startStr = 8)
                    in Some \<lparr>event_id = uid, title = summary,
                             start = parseICalDate startStr,
                             event_end = parseICalDate endStr,
                             allDay = isAllDay\<rparr>)
               | _ \<Rightarrow> None))"

text \<open>The loop over \<open>eventBlocks[i]\<close>, \<open>eventBlocks[i + 1]\<close>, ...\<close>

fun parseEventBlocks :: "nat \<Rightarrow> string list \<Rightarrow> calendar_event list" where
  "parseEventBlocks i [] = []"
| "parseEventBlocks i (block # blocks) =
     (case parseEventBlock i block of
        None \<Rightarrow> parseEventBlocks (Suc i) blocks
      | Some event \<Rightarrow> event # parseEventBlocks (Suc i) blocks)"

section \<open>The environment: configuration, clock and network\<close>

text \<open>A thrown \<open>Error\<close> with its message. An \<open>async\<close> function settles to
  \<open>error + 'a\<close>: \<open>Inl\<close> is a rejected promise, \<open>Inr\<close> a fulfilled one.\<close>

datatype error = Error string

fun message :: "error \<Rightarrow> string" where
  "message (Error m) = m"

text \<open>What \<open>fetch\<close> settles to is \<open>error + 'a response\<close>: \<open>body\<close> is what
  \<open>response.text()\<close> or \<open>response.json()\<close> settles to.\<close>

datatype 'a response = Response (ok: bool) (status: nat) (body: "error + 'a")

record google_time =
  dateTime :: "string option"
  date :: "string option"

text \<open>\<open>GoogleCalendarEvent\<close>; \<open>id\<close>, \<open>start\<close> and \<open>end\<close> are \<open>item_id\<close>,
  \<open>item_start\<close> and \<open>item_end\<close> here.\<close>

record google_calendar_event =
  item_id :: string
  summary :: "string option"
  item_start :: google_time
  item_end :: google_time

record google_calendar_response =
  items :: "google_calendar_event list option"

text \<open>The query of the events-list request (\<open>singleEvents = true\<close> and
  \<open>orderBy = startTime\<close> are constant).\<close>

record events_query =
  query_calendarId :: string
  query_key :: string
  query_timeMin :: int
  query_timeMax :: int
  query_maxResults :: int

datatype request = ICalRequest string | EventsRequest events_query

record calendar_params =
  calendarId :: "string option"
  apiKey :: "string option"
  icalUrl :: "string option"
  maxResults :: "int option"

record calendar_data =
  events :: "calendar_event list"
  startDate :: int

text \<open>What one invocation reads: the clock (\<open>new Date()\<close>, taken as one reading for the
  invocation), the local offset, the engine's date parser, \<open>process.env\<close>, and what the
  network answers to each request.\<close>

record world =
  clock :: int
  tza :: int
  date_impl :: "string \<Rightarrow> int option"
  GOOGLE_CALENDAR_ICAL_URL :: "string option"
  GOOGLE_CALENDAR_API_KEY :: "string option"
  fetch_ical :: "string \<Rightarrow> error + string response"
  fetch_events :: "events_query \<Rightarrow> error + google_calendar_response response"

text \<open>What an invocation changes: the entries of the data cache and the requests sent.\<close>

record cache_entry =
  entry_value :: calendar_data
  entry_time :: int

record sys =
  cache :: "calendar_params option \<Rightarrow> cache_entry option"
  requests :: "request list"

text \<open>Truthiness of an optional string, and \<open>a || b\<close>.\<close>

definition truthy :: "string option \<Rightarrow> bool" where
  "truthy v = (case v of None \<Rightarrow> False | Some s \<Rightarrow> s \<noteq> [])"

definition or_else :: "string option \<Rightarrow> string option \<Rightarrow> string option" where
  "or_else a b = (if truthy a then a else b)"

definition or_default :: "string option \<Rightarrow> string \<Rightarrow> string" where
  "or_default a d = (case a of None \<Rightarrow> d | Some s \<Rightarrow> if s = [] then d else s)"

definition isPrerenderAbort :: "string \<Rightarrow> bool" where
  "isPrerenderAbort errorMessage =
     (includes_str errorMessage ''prerender''
      \<or> includes_str errorMessage ''HANGING_PROMISE_REJECTION''
      \<or> includes_str errorMessage ''prerender is complete'')"

section \<open>The adapters\<close>

definition parseICal :: "string \<Rightarrow> calendar_event list" where
  "parseICal icalData = parseEventBlocks 1 (drop 1 (split icalData ''BEGIN:VEVENT''))"

text \<open>The \<open>try\<close> block of \<open>fetchICalEvents\<close>.\<close>

definition fetchICalEvents_try :: "world \<Rightarrow> string \<Rightarrow> error + calendar_event list" where
  "fetchICalEvents_try w url =
     (case fetch_ical w url of
        Inl e \<Rightarrow> Inl e
      | Inr response \<Rightarrow>
          if \<not> ok response then
            Inl (Error (''iCal fetch responded with status: '' @ showNat (status response)))
          else
            (case body response of
               Inl e \<Rightarrow> Inl e
             | Inr icalData \<Rightarrow> Inr (parseICal icalData)))"

definition fetchICalEvents ::
    "world \<Rightarrow> string \<Rightarrow> sys \<Rightarrow> (error + calendar_event list option) \<times> sys" where
  "fetchICalEvents w url s =
     (let s' = s\<lparr>requests := requests s @ [ICalRequest url]\<rparr>
      in case fetchICalEvents_try w url of
           Inr evs \<Rightarrow> (Inr (Some evs), s')
         | Inl error \<Rightarrow>
             if isPrerenderAbort (message error) then (Inr None, s') else (Inr None, s'))"

definition transformEvent :: "google_calendar_event \<Rightarrow> calendar_event" where
  "transformEvent event =
     (let isAllDay = truthy (date (item_start event));
          start = or_default (or_else (dateTime (item_start event)) (date (item_start event))) [];
          end = or_default (or_else (dateTime (item_end event)) (date (item_end event))) []
      in \<lparr>event_id = item_id event,
          title = or_default (summary event) ''Untitled Event'',
          start = start, event_end = end, allDay = isAllDay\<rparr>)"

definition eventsQuery :: "world \<Rightarrow> string \<Rightarrow> string \<Rightarrow> int \<Rightarrow> events_query" where
  "eventsQuery w calId key maxRes =
     (let bounds = getWeekBounds (tza w) (clock w)
      in \<lparr>query_calendarId = calId, query_key = key,
          query_timeMin = timeMin bounds, query_timeMax = timeMax bounds,
          query_maxResults = maxRes\<rparr>)"

text \<open>The \<open>try\<close> block of \<open>fetchCalendarEvents\<close>.\<close>

definition fetchCalendarEvents_try ::
    "world \<Rightarrow> string \<Rightarrow> string \<Rightarrow> int \<Rightarrow> error + calendar_event list" where
  "fetchCalendarEvents_try w calId key maxRes =
     (case fetch_events w (eventsQuery w calId key maxRes) of
        Inl e \<Rightarrow> Inl e
      | Inr response \<Rightarrow>
          if \<not> ok response then
            Inl (Error (''Google Calendar API responded with status: ''
                        @ showNat (status response)))
          else
            (case body response of
               Inl e \<Rightarrow> Inl e
             | Inr data \<Rightarrow>
                 (case items data of
                    None \<Rightarrow> Inr []
                  | Some its \<Rightarrow> if length its = 0 then Inr [] else Inr (map transformEvent its))))"

definition fetchCalendarEvents ::
    "world \<Rightarrow> string \<Rightarrow> string \<Rightarrow> int \<Rightarrow> sys
       \<Rightarrow> (error + calendar_event list option) \<times> sys" where
  "fetchCalendarEvents w calId key maxRes s =
     (let s' = s\<lparr>requests := requests s @ [EventsRequest (eventsQuery w calId key maxRes)]\<rparr>
      in case fetchCalendarEvents_try w calId key maxRes of
           Inr evs \<Rightarrow> (Inr (Some evs), s')
         | Inl error \<Rightarrow>
             if isPrerenderAbort (message error) then (Inr None, s') else (Inr None, s'))"

section \<open>Source selection, week filter, cache and fallback\<close>

text \<open>The resolved configuration, as both paths compute it in their first four lines.
  An absent value and the empty string are both falsy: a resolved string that is absent
  is the empty string here, as the source itself writes for \<open>apiKey\<close>.\<close>

definition resolve_icalUrl :: "world \<Rightarrow> calendar_params option \<Rightarrow> string" where
  "resolve_icalUrl w params =
     or_default (or_else (case params of None \<Rightarrow> None | Some p \<Rightarrow> icalUrl p)
                         (GOOGLE_CALENDAR_ICAL_URL w)) []"

definition resolve_calendarId :: "calendar_params option \<Rightarrow> string" where
  "resolve_calendarId params =
     or_default (case params of None \<Rightarrow> None | Some p \<Rightarrow> calendarId p) ''primary''"

definition resolve_apiKey :: "world \<Rightarrow> calendar_params option \<Rightarrow> string" where
  "resolve_apiKey w params =
     or_default (or_else (case params of None \<Rightarrow> None | Some p \<Rightarrow> apiKey p)
                         (GOOGLE_CALENDAR_API_KEY w)) []"

definition resolve_maxResults :: "calendar_params option \<Rightarrow> int" where
  "resolve_maxResults params =
     (case (case params of None \<Rightarrow> None | Some p \<Rightarrow> maxResults p) of
        None \<Rightarrow> 50
      | Some n \<Rightarrow> if n = 0 then 50 else n)"

text \<open>The predicate of \<open>events.filter\<close>: comparisons with an Invalid Date are false.\<close>

definition inWeek :: "world \<Rightarrow> int \<Rightarrow> int \<Rightarrow> calendar_event \<Rightarrow> bool" where
  "inWeek w weekStart weekEnd event =
     (case Date_parse (tza w) (date_impl w) (start event) of
        None \<Rightarrow> False
      | Some eventStart \<Rightarrow> eventStart \<ge> weekStart \<and> eventStart \<le> weekEnd)"

definition filterWeek :: "world \<Rightarrow> int \<Rightarrow> int \<Rightarrow> calendar_event list \<Rightarrow> calendar_event list" where
  "filterWeek w weekStart weekEnd evs = filter (inWeek w weekStart weekEnd) evs"

definition weekData :: "world \<Rightarrow> calendar_event list \<Rightarrow> calendar_data" where
  "weekData w evs =
     (let bounds = getWeekBounds (tza w) (clock w);
          weekStart = timeMin bounds;
          weekEnd = timeMax bounds;
          filteredEvents = filterWeek w weekStart weekEnd evs
      in \<lparr>events = filteredEvents, startDate = timeMin bounds\<rparr>)"

definition fetchCalendarDataNoCache ::
    "world \<Rightarrow> calendar_params option \<Rightarrow> sys \<Rightarrow> (error + calendar_data) \<times> sys" where
  "fetchCalendarDataNoCache w params s =
     (let icalUrl = resolve_icalUrl w params;
          calendarId = resolve_calendarId params;
          apiKey = resolve_apiKey w params;
          maxResults = resolve_maxResults params;
          (fetched, s') =
            (if icalUrl \<noteq> [] then fetchICalEvents w icalUrl s
             else if apiKey \<noteq> [] then fetchCalendarEvents w calendarId apiKey maxResults s
             else (Inr None, s))
      in case fetched of
           Inl e \<Rightarrow> (Inl e, s')
         | Inr None \<Rightarrow> (Inr \<lparr>events = [], startDate = clock w\<rparr>, s')
         | Inr (Some evs) \<Rightarrow> (Inr (weekData w evs), s'))"

text \<open>The function given to \<open>unstable_cache\<close>.\<close>

definition getCachedCalendarData_callback ::
    "world \<Rightarrow> calendar_params option \<Rightarrow> sys \<Rightarrow> (error + calendar_data) \<times> sys" where
  "getCachedCalendarData_callback w params s =
     (let icalUrl = resolve_icalUrl w params;
          calendarId = resolve_calendarId params;
          apiKey = resolve_apiKey w params;
          maxResults = resolve_maxResults params;
          (fetched, s') =
            (if icalUrl \<noteq> [] then fetchICalEvents w icalUrl s
             else if apiKey \<noteq> [] then fetchCalendarEvents w calendarId apiKey maxResults s
             else (Inl (Error ''No calendar source provided - skip caching''), s))
      in case fetched of
           Inl e \<Rightarrow> (Inl e, s')
         | Inr None \<Rightarrow> (Inl (Error ''Empty or invalid data - skip caching''), s')
         | Inr (Some evs) \<Rightarrow> (Inr (weekData w evs), s'))"

text \<open>
  \<open>unstable_cache\<close> is the framework's: a call with a fresh entry for its arguments
  returns the entry and does not run the function; otherwise the function runs, a value
  it returns is stored with the time and returned, and an error it throws is thrown on
  with nothing stored. \<open>revalidate\<close> is in seconds.
\<close>

definition unstable_cache ::
    "(calendar_params option \<Rightarrow> sys \<Rightarrow> (error + calendar_data) \<times> sys) \<Rightarrow> int \<Rightarrow> int
       \<Rightarrow> calendar_params option \<Rightarrow> sys \<Rightarrow> (error + calendar_data) \<times> sys" where
  "unstable_cache f revalidate now params s =
     (let run =
            (case f params s of
               (Inl e, s') \<Rightarrow> (Inl e, s')
             | (Inr v, s') \<Rightarrow>
                 (Inr v, s'\<lparr>cache := (cache s')(params \<mapsto> \<lparr>entry_value = v, entry_time = now\<rparr>)\<rparr>))
      in case cache s params of
           None \<Rightarrow> run
         | Some entry \<Rightarrow>
             if now - entry_time entry < revalidate * 1000 then (Inr (entry_value entry), s)
             else run)"

definition getCachedCalendarData ::
    "world \<Rightarrow> calendar_params option \<Rightarrow> sys \<Rightarrow> (error + calendar_data) \<times> sys" where
  "getCachedCalendarData w = unstable_cache (getCachedCalendarData_callback w) 300 (clock w)"

definition getData ::
    "world \<Rightarrow> calendar_params option \<Rightarrow> sys \<Rightarrow> (error + calendar_data) \<times> sys" where
  "getData w params s =
     (case getCachedCalendarData w params s of
        (Inr v, s') \<Rightarrow> (Inr v, s')
      | (Inl error, s') \<Rightarrow> fetchCalendarDataNoCache w params s')"

section \<open>The grid layout\<close>

text \<open>Numbers that may be \<open>NaN\<close> (\<open>None\<close>): the fields of an Invalid Date and what is
  computed from them.\<close>

type_synonym number = "int option"

definition num_sub :: "number \<Rightarrow> number \<Rightarrow> number" where
  "num_sub a b = (case (a, b) of (Some x, Some y) \<Rightarrow> Some (x - y) | _ \<Rightarrow> None)"

definition num_add :: "number \<Rightarrow> number \<Rightarrow> number" where
  "num_add a b = (case (a, b) of (Some x, Some y) \<Rightarrow> Some (x + y) | _ \<Rightarrow> None)"

definition num_mul :: "number \<Rightarrow> number \<Rightarrow> number" where
  "num_mul a b = (case (a, b) of (Some x, Some y) \<Rightarrow> Some (x * y) | _ \<Rightarrow> None)"

definition num_ge :: "number \<Rightarrow> number \<Rightarrow> bool" where
  "num_ge a b = (case (a, b) of (Some x, Some y) \<Rightarrow> x \<ge> y | _ \<Rightarrow> False)"

definition Math_max :: "number \<Rightarrow> number \<Rightarrow> number" where
  "Math_max a b = (case (a, b) of (Some x, Some y) \<Rightarrow> Some (max x y) | _ \<Rightarrow> None)"

definition parseEventDate :: "world \<Rightarrow> string \<Rightarrow> int option" where
  "parseEventDate w dateString =
     (if length dateString = 10 \<and> matchesPattern ''dddd-dd-dd'' dateString then
        (case map Number (split dateString ''-'') of
           [year, month, day] \<Rightarrow> Some (Date_of_fields (tza w) year (month - 1) day)
         | _ \<Rightarrow> None)
      else Date_parse (tza w) (date_impl w) dateString)"

record event_style =
  style_top :: number
  style_height :: number

definition getEventStyle :: "world \<Rightarrow> calendar_event \<Rightarrow> event_style" where
  "getEventStyle w event =
     (let start = parseEventDate w (start event);
          end = parseEventDate w (event_end event);
          startHour = map_option (getHours (tza w)) start;
          startMinute = map_option (getMinutes (tza w)) start;
          endHour = map_option (getHours (tza w)) end;
          endMinute = map_option (getMinutes (tza w)) end;
          startOffset = num_add (num_mul (num_sub startHour (Some 7)) (Some 2))
                                (Some (if num_ge startMinute (Some 30) then 1 else 0));
          endOffset = num_add (num_mul (num_sub endHour (Some 7)) (Some 2))
                              (Some (if num_ge endMinute (Some 30) then 1 else 0))
      in \<lparr>style_top = startOffset,
          style_height = Math_max (Some 1) (num_sub endOffset startOffset)\<rparr>)"

section \<open>Example inputs\<close>

text \<open>A feed of four blocks: an all-day event, a block without \<open>DTEND\<close>, a timed event
  and an event whose \<open>DTSTART\<close> carries a parameter.\<close>

definition feedText :: string where
  "feedText = ''BEGIN:VCALENDAR\<newline>BEGIN:VEVENT\<newline>DTSTART:20240101\<newline>DTEND:20240102\<newline>SUMMARY:New Year\<newline>END:VEVENT\<newline>BEGIN:VEVENT\<newline>SUMMARY:No end\<newline>DTSTART:20240102T120000\<newline>END:VEVENT\<newline>BEGIN:VEVENT\<newline>UID:standup\<newline>DTSTART:20240103T090000\<newline>DTEND:20240103T100000\<newline>END:VEVENT\<newline>BEGIN:VEVENT\<newline>UID:offsite\<newline>DTSTART;VALUE=DATE:20240104\<newline>DTEND;VALUE=DATE:20240105\<newline>END:VEVENT\<newline>END:VCALENDAR''"

text \<open>A process at UTC+1 with no environment variable set, the clock at Wednesday
  2024-01-03T12:00:00Z, an engine that parses no other date format, and a network that
  answers three feed URLs and three calendar ids and rejects every other request.\<close>

definition exampleWorld :: world where
  "exampleWorld =
     \<lparr>clock = 1704283200000, tza = 3600000, date_impl = (\<lambda>str. None),
      GOOGLE_CALENDAR_ICAL_URL = None, GOOGLE_CALENDAR_API_KEY = None,
      fetch_ical = (\<lambda>url.
        if url = ''https://feed.example/week.ics'' then Inr (Response True 200 (Inr feedText))
        else if url = ''https://feed.example/empty.ics''
          then Inr (Response True 200 (Inr ''BEGIN:VCALENDAR\<newline>END:VCALENDAR''))
        else if url = ''https://feed.example/gone.ics''
          then Inr (Response False 404 (Inr ''Not Found''))
        else Inl (Error ''fetch failed'')),
      fetch_events = (\<lambda>q.
        if query_calendarId q = ''team'' then
          Inr (Response True 200 (Inr \<lparr>items = Some
            [\<lparr>item_id = ''e1'', summary = Some ''Review'',
              item_start = \<lparr>dateTime = Some ''2024-01-04T14:00:00Z'', date = None\<rparr>,
              item_end = \<lparr>dateTime = Some ''2024-01-04T15:00:00Z'', date = None\<rparr>\<rparr>,
             \<lparr>item_id = ''e2'', summary = None,
              item_start = \<lparr>dateTime = None, date = Some ''2024-01-20''\<rparr>,
              item_end = \<lparr>dateTime = None, date = Some ''2024-01-21''\<rparr>\<rparr>]\<rparr>))
        else if query_calendarId q = ''empty'' then
          Inr (Response True 200 (Inr \<lparr>items = Some []\<rparr>))
        else if query_calendarId q = ''private'' then
          Inr (Response False 403 (Inr \<lparr>items = None\<rparr>))
        else Inl (Error ''fetch failed: prerender is complete''))\<rparr>"

definition emptySys :: sys where
  "emptySys = \<lparr>cache = (\<lambda>key. None), requests = []\<rparr>"

definition apiParams :: "string \<Rightarrow> calendar_params option" where
  "apiParams calId =
     Some \<lparr>calendarId = Some calId, apiKey = Some ''key'', icalUrl = None, maxResults = None\<rparr>"

definition feedParams :: "string \<Rightarrow> calendar_params option" where
  "feedParams url =
     Some \<lparr>calendarId = None, apiKey = Some ''key'', icalUrl = Some url, maxResults = None\<rparr>"

definition timedEvent :: "string \<Rightarrow> string \<Rightarrow> calendar_event" where
  "timedEvent from to =
     \<lparr>event_id = ''e'', title = ''Meeting'', start = from, event_end = to, allDay = False\<rparr>"

section \<open>Properties of the week window\<close>

lemma msPerDay_pos: "0 < msPerDay"
  by (simp add: msPerDay_def)

lemma TimeWithinDay_range: "0 \<le> TimeWithinDay t \<and> TimeWithinDay t < msPerDay"
  using msPerDay_pos by (simp add: TimeWithinDay_def)

lemma Day_MakeDate: "0 \<le> time \<Longrightarrow> time < msPerDay \<Longrightarrow> Day (MakeDate day time) = day"
  using msPerDay_pos by (simp add: Day_def MakeDate_def div_pos_pos_trivial)

lemma TimeWithinDay_MakeDate:
  "0 \<le> time \<Longrightarrow> time < msPerDay \<Longrightarrow> TimeWithinDay (MakeDate day time) = time"
  using msPerDay_pos by (simp add: TimeWithinDay_def MakeDate_def)

lemma Local_UTC: "LocalTime tz (UTC tz t) = t"
  by (simp add: LocalTime_def UTC_def)

lemma setDate_local:
  "LocalTime tz (setDate tz t dt) =
     MakeDate (Day (LocalTime tz t) - getDate tz t + dt) (TimeWithinDay (LocalTime tz t))"
  by (simp add: setDate_def Let_def Local_UTC getDate_def algebra_simps)

lemma setHours_local:
  "LocalTime tz (setHours tz t h m s ms) = MakeDate (Day (LocalTime tz t)) (MakeTime h m s ms)"
  by (simp add: setHours_def Let_def Local_UTC)

lemma weekStart_local:
  "LocalTime tz (timeMin (getWeekBounds tz now)) = MakeDate (mondayOf (LocalTime tz now)) 0"
  using TimeWithinDay_range [of "LocalTime tz now"]
  by (simp add: getWeekBounds_def Let_def setHours_local setDate_local Day_MakeDate getDay_def
      MakeTime_def algebra_simps)

lemma weekEnd_local:
  "LocalTime tz (timeMax (getWeekBounds tz now)) =
     MakeDate (mondayOf (LocalTime tz now) + 7) (MakeTime 23 59 59 999)"
proof -
  let ?ws = "timeMin (getWeekBounds tz now)"
  have ws: "LocalTime tz ?ws = MakeDate (mondayOf (LocalTime tz now)) 0"
    by (rule weekStart_local)
  have d: "Day (LocalTime tz ?ws) = mondayOf (LocalTime tz now)"
    using msPerDay_pos by (simp add: ws Day_MakeDate)
  have t: "TimeWithinDay (LocalTime tz ?ws) = 0"
    using msPerDay_pos by (simp add: ws TimeWithinDay_MakeDate)
  have "timeMax (getWeekBounds tz now) =
          setHours tz (setDate tz ?ws (getDate tz ?ws + 7)) 23 59 59 999"
    by (simp add: getWeekBounds_def Let_def)
  then show ?thesis
    using msPerDay_pos
    by (simp add: setHours_local setDate_local d t Day_MakeDate algebra_simps)
qed

text \<open>The start of the window is a Monday (\<open>getDay\<close> is 1) at local midnight.\<close>

lemma WeekDay_monday: "WeekDay (MakeDate (mondayOf lt) 0) = 1"
proof -
  have "Day (MakeDate (mondayOf lt) 0) = mondayOf lt"
    using msPerDay_pos by (simp add: Day_MakeDate)
  then show ?thesis
    unfolding WeekDay_def by (simp split: if_splits) presburger+
qed

lemma getWeekBounds_start_monday_midnight:
  "getDay tz (timeMin (getWeekBounds tz now)) = 1
     \<and> TimeWithinDay (LocalTime tz (timeMin (getWeekBounds tz now))) = 0"
  using msPerDay_pos
  by (simp add: getDay_def weekStart_local WeekDay_monday TimeWithinDay_MakeDate)

text \<open>It is the Monday of the week of \<open>now\<close>, also when \<open>now\<close> is a Sunday: \<open>now\<close> lies
  in the seven days that start there.\<close>

lemma mondayOf_range: "mondayOf lt \<le> Day lt \<and> Day lt \<le> mondayOf lt + 6"
  unfolding WeekDay_def by (simp split: if_splits) presburger

lemma getWeekBounds_start_current_week:
  "timeMin (getWeekBounds tz now) \<le> now \<and> now < timeMin (getWeekBounds tz now) + 7 * msPerDay"
proof -
  let ?lt = "LocalTime tz now"
  have lt: "?lt = Day ?lt * msPerDay + TimeWithinDay ?lt"
    by (simp add: Day_def TimeWithinDay_def)
  have r: "0 \<le> TimeWithinDay ?lt \<and> TimeWithinDay ?lt < msPerDay"
    by (rule TimeWithinDay_range)
  have m: "mondayOf ?lt \<le> Day ?lt \<and> Day ?lt \<le> mondayOf ?lt + 6"
    by (rule mondayOf_range)
  have a: "mondayOf ?lt * msPerDay \<le> Day ?lt * msPerDay"
    using m msPerDay_pos by (intro mult_right_mono) simp_all
  have "Day ?lt * msPerDay \<le> (mondayOf ?lt + 6) * msPerDay"
    using m msPerDay_pos by (intro mult_right_mono) simp_all
  then have b: "Day ?lt * msPerDay \<le> mondayOf ?lt * msPerDay + 6 * msPerDay"
    by (simp only: distrib_right)
  have "mondayOf ?lt * msPerDay + 0 \<le> ?lt \<and> ?lt < mondayOf ?lt * msPerDay + 0 + 7 * msPerDay"
    using lt r a b by linarith
  then have "MakeDate (mondayOf ?lt) 0 \<le> ?lt \<and> ?lt < MakeDate (mondayOf ?lt) 0 + 7 * msPerDay"
    by (simp only: MakeDate_def)
  then show ?thesis
    unfolding weekStart_local [symmetric] by (simp add: LocalTime_def)
qed

text \<open>The end of the window is 23:59:59.999 of the Monday after: for every \<open>now\<close> the
  window spans eight days less one millisecond.\<close>

lemma getWeekBounds_span:
  "timeMax (getWeekBounds tz now) - timeMin (getWeekBounds tz now) = 8 * msPerDay - 1"
proof -
  have "LocalTime tz (timeMax (getWeekBounds tz now))
          - LocalTime tz (timeMin (getWeekBounds tz now)) = 8 * msPerDay - 1"
    unfolding weekEnd_local weekStart_local
    by (simp add: MakeDate_def MakeTime_def msPerDay_def msPerHour_def msPerMinute_def
        msPerSecond_def algebra_simps)
  then show ?thesis
    by (simp add: LocalTime_def)
qed

text \<open>The Sunday edge: with the clock at Sunday 2024-01-07T12:00:00Z (local time UTC) the
  window starts on Monday 2024-01-01, not on the Monday after.\<close>

lemma getWeekBounds_sunday:
  "getDay 0 1704628800000 = 0
   \<and> getWeekBounds 0 1704628800000 = \<lparr>timeMin = 1704067200000, timeMax = 1704758399999\<rparr>"
  by code_simp

text \<open>
  Claim C1: the start of the week window is the Monday of the current local week at
  local midnight, and its end minus its start is seven days less one millisecond.
  The first half holds (\<open>getWeekBounds_start_monday_midnight\<close>,
  \<open>getWeekBounds_start_current_week\<close>). The second half fails: with the clock at
  Wednesday 2024-01-03T12:00:00Z and local time UTC, the window runs from Monday
  2024-01-01T00:00:00.000Z to Monday 2024-01-08T23:59:59.999Z, which is 691199999 ms,
  not the 604799999 ms of seven days less one millisecond.
\<close>

theorem getWeekBounds_wednesday:
  "getWeekBounds 0 1704283200000 = \<lparr>timeMin = 1704067200000, timeMax = 1704758399999\<rparr>
   \<and> timeMax (getWeekBounds 0 1704283200000) - timeMin (getWeekBounds 0 1704283200000)
       = 691199999
   \<and> 7 * msPerDay - 1 = 604799999"
  by code_simp

section \<open>Properties of the feed parser\<close>

lemma indexOf_ge: "- 1 \<le> indexOf s p"
  by (induction s) (auto simp add: Let_def)

lemma indexOf_Cons_found: "indexOf cs p \<noteq> - 1 \<Longrightarrow> indexOf (c # cs) p \<noteq> - 1"
  using indexOf_ge [of cs p] by (auto simp add: Let_def)

text \<open>A match of \<open>/name[seps](.+)/\<close> needs the text \<open>name\<close> in the subject.\<close>

lemma regexCapture_includes: "regexCapture name seps s = Some v \<Longrightarrow> includes_str s name"
  unfolding includes_str_def
proof (induction s)
  case Nil
  then show ?case by simp
next
  case (Cons c cs)
  show ?case
  proof (cases "prefix name (c # cs)")
    case True
    then show ?thesis by simp
  next
    case False
    with Cons.prems have "regexCapture name seps cs = Some v"
      by simp
    then have "indexOf cs name \<noteq> - 1"
      by (rule Cons.IH)
    then show ?thesis
      by (rule indexOf_Cons_found)
  qed
qed

lemma includes_take: "includes_str (take n s) p \<Longrightarrow> includes_str s p"
  unfolding includes_str_def
proof (induction s arbitrary: n)
  case Nil
  then show ?case by simp
next
  case (Cons c cs)
  show ?case
  proof (cases n)
    case 0
    with Cons.prems have "p = []"
      by (simp split: if_splits)
    then show ?thesis by simp
  next
    case (Suc m)
    show ?thesis
    proof (cases "prefix p (c # take m cs)")
      case True
      moreover have "prefix (c # take m cs) (c # cs)"
        by (simp add: take_is_prefix)
      ultimately have "prefix p (c # cs)"
        by (rule prefix_order.trans)
      then show ?thesis by simp
    next
      case False
      with Cons.prems Suc have "indexOf (take m cs) p \<noteq> - 1"
        by (auto simp add: Let_def split: if_splits)
      then have "indexOf cs p \<noteq> - 1"
        by (rule Cons.IH)
      then show ?thesis
        by (rule indexOf_Cons_found)
    qed
  qed
qed

lemma parseEventBlock_missing_marker:
  assumes "\<not> includes_str block ''DTSTART'' \<or> \<not> includes_str block ''DTEND''"
  shows "parseEventBlock i block = None"
proof -
  let ?data = "substring block 0 (nat (indexOf block ''END:VEVENT''))"
  have "?data = take (nat (indexOf block ''END:VEVENT'')) block"
    by (simp add: substring_def)
  with assms have "\<not> includes_str ?data ''DTSTART'' \<or> \<not> includes_str ?data ''DTEND''"
    using includes_take by metis
  then have "regexCapture ''DTSTART'' '';:'' ?data = None
             \<or> regexCapture ''DTEND'' '';:'' ?data = None"
    using regexCapture_includes by (metis not_Some_eq)
  then show ?thesis
    by (auto simp add: parseEventBlock_def Let_def split: option.splits)
qed

lemma parseEventBlocks_append:
  "parseEventBlocks i (xs @ ys) = parseEventBlocks i xs @ parseEventBlocks (i + length xs) ys"
  by (induction xs arbitrary: i) (auto split: option.splits)

text \<open>
  Claim C5: a VEVENT block without its \<open>DTSTART\<close> or its \<open>DTEND\<close> marker is skipped
  and does not abort the parse; the other blocks of the document still produce their
  events. A block in which the text \<open>DTSTART\<close> or the text \<open>DTEND\<close> does not occur yields
  no event at any position, the loop over blocks around it yields what it yields over
  the blocks before and over the blocks after (each at its own index), and for a
  document whose block \<open>k + 1\<close> is such a block the parse is the events of the blocks
  before it followed by the events of the blocks after it.
\<close>

theorem missing_marker_block_skipped:
  "(\<not> includes_str block ''DTSTART'' \<or> \<not> includes_str block ''DTEND''
      \<longrightarrow> (\<forall>j. parseEventBlock j block = None)
          \<and> parseEventBlocks i (before @ block # after)
              = parseEventBlocks i before @ parseEventBlocks (Suc (i + length before)) after)
   \<and> (\<forall>k. Suc k < length (split doc ''BEGIN:VEVENT'')
           \<and> (\<not> includes_str (split doc ''BEGIN:VEVENT'' ! Suc k) ''DTSTART''
               \<or> \<not> includes_str (split doc ''BEGIN:VEVENT'' ! Suc k) ''DTEND'')
        \<longrightarrow> parseICal doc
              = parseEventBlocks 1 (take k (drop 1 (split doc ''BEGIN:VEVENT'')))
                @ parseEventBlocks (k + 2) (drop (k + 2) (split doc ''BEGIN:VEVENT'')))"
proof (intro conjI impI allI)
  fix j
  assume "\<not> includes_str block ''DTSTART'' \<or> \<not> includes_str block ''DTEND''"
  then show "parseEventBlock j block = None"
    by (rule parseEventBlock_missing_marker)
next
  assume "\<not> includes_str block ''DTSTART'' \<or> \<not> includes_str block ''DTEND''"
  then have "parseEventBlock (i + length before) block = None"
    by (rule parseEventBlock_missing_marker)
  then show "parseEventBlocks i (before @ block # after)
      = parseEventBlocks i before @ parseEventBlocks (Suc (i + length before)) after"
    by (simp add: parseEventBlocks_append)
next
  fix k
  let ?blocks = "split doc ''BEGIN:VEVENT''"
  assume a: "Suc k < length ?blocks
           \<and> (\<not> includes_str (?blocks ! Suc k) ''DTSTART''
               \<or> \<not> includes_str (?blocks ! Suc k) ''DTEND'')"
  then have k: "k < length (drop 1 ?blocks)"
    by auto
  have "drop 1 ?blocks
          = take k (drop 1 ?blocks) @ (drop 1 ?blocks) ! k # drop (Suc k) (drop 1 ?blocks)"
    using k by (rule id_take_nth_drop)
  moreover have "(drop 1 ?blocks) ! k = ?blocks ! Suc k"
    using a by simp
  ultimately have d:
    "drop 1 ?blocks = take k (drop 1 ?blocks) @ ?blocks ! Suc k # drop (k + 2) ?blocks"
    by simp
  have n: "parseEventBlock (Suc k) (?blocks ! Suc k) = None"
    using a by (simp add: parseEventBlock_missing_marker)
  have "parseICal doc
          = parseEventBlocks 1 (take k (drop 1 ?blocks) @ ?blocks ! Suc k # drop (k + 2) ?blocks)"
    unfolding parseICal_def using d by simp
  also have "\<dots> = parseEventBlocks 1 (take k (drop 1 ?blocks))
                   @ parseEventBlocks (k + 2) (drop (k + 2) ?blocks)"
    using k n by (simp add: parseEventBlocks_append min_def)
  finally show "parseICal doc = parseEventBlocks 1 (take k (drop 1 ?blocks))
                   @ parseEventBlocks (k + 2) (drop (k + 2) ?blocks)" .
qed

text \<open>In the example feed, block 2 has no \<open>DTEND\<close>: it yields nothing, and the feed parses
  to the events of blocks 1, 3 and 4.\<close>

theorem missing_marker_block_skipped_witness:
  "Suc 1 < length (split feedText ''BEGIN:VEVENT'')
   \<and> \<not> includes_str (split feedText ''BEGIN:VEVENT'' ! Suc 1) ''DTEND''
   \<and> parseEventBlock 2 (split feedText ''BEGIN:VEVENT'' ! Suc 1) = None
   \<and> parseICal feedText
       = parseEventBlocks 1 (take 1 (drop 1 (split feedText ''BEGIN:VEVENT'')))
         @ parseEventBlocks (1 + 2) (drop (1 + 2) (split feedText ''BEGIN:VEVENT''))
   \<and> map event_id (parseICal feedText) = [''event-1'', ''standup'', ''offsite'']"
proof -
  have h: "Suc 1 < length (split feedText ''BEGIN:VEVENT'')
           \<and> \<not> includes_str (split feedText ''BEGIN:VEVENT'' ! Suc 1) ''DTEND''"
    by code_simp
  have e: "map event_id (parseICal feedText) = [''event-1'', ''standup'', ''offsite'']"
    by code_simp
  from h missing_marker_block_skipped
         [of "split feedText ''BEGIN:VEVENT'' ! Suc 1" 2 "[]" "[]" feedText]
  have "parseEventBlock 2 (split feedText ''BEGIN:VEVENT'' ! Suc 1) = None
        \<and> parseICal feedText
            = parseEventBlocks 1 (take 1 (drop 1 (split feedText ''BEGIN:VEVENT'')))
              @ parseEventBlocks (1 + 2) (drop (1 + 2) (split feedText ''BEGIN:VEVENT''))"
    by blast
  with h e show ?thesis
    by blast
qed

text \<open>
  Claim C6: for every parsed event block, an 8-character \<open>DTSTART\<close> value yields
  \<open>allDay = true\<close>, and a longer value (a date-time, or a value carrying parameters)
  yields \<open>allDay = false\<close>. The value is the trimmed text that follows \<open>DTSTART:\<close> or
  \<open>DTSTART;\<close> on its line, group 1 of the match.
\<close>

theorem allDay_iff_eight_characters:
  "parseEventBlock i block = Some event \<longrightarrow>
     (\<exists>v. regexCapture ''DTSTART'' '';:'' (substring block 0 (nat (indexOf block ''END:VEVENT'')))
             = Some v
           \<and> (length (trim v) = 8 \<longrightarrow> allDay event)
           \<and> (8 < length (trim v) \<longrightarrow> \<not> allDay event)
           \<and> allDay event = (length (trim v) = 8))"
proof
  let ?data = "substring block 0 (nat (indexOf block ''END:VEVENT''))"
  assume p: "parseEventBlock i block = Some event"
  then have e: "indexOf block ''END:VEVENT'' \<noteq> - 1"
    by (auto simp add: parseEventBlock_def)
  from p e obtain v u where v: "regexCapture ''DTSTART'' '';:'' ?data = Some v"
    and u: "regexCapture ''DTEND'' '';:'' ?data = Some u"
    by (cases "regexCapture ''DTSTART'' '';:'' ?data"; cases "regexCapture ''DTEND'' '';:'' ?data")
      (simp_all add: parseEventBlock_def Let_def)
  from p e v u have "allDay event = (length (trim v) = 8)"
    by (auto simp add: parseEventBlock_def Let_def)
  with v show "\<exists>v. regexCapture ''DTSTART'' '';:'' ?data = Some v
           \<and> (length (trim v) = 8 \<longrightarrow> allDay event)
           \<and> (8 < length (trim v) \<longrightarrow> \<not> allDay event)
           \<and> allDay event = (length (trim v) = 8)"
    by simp
qed

text \<open>The blocks of the example feed: \<open>20240101\<close> is all-day, \<open>20240103T090000\<close> and
  \<open>VALUE=DATE:20240104\<close> are not.\<close>

theorem allDay_iff_eight_characters_witness:
  "map (\<lambda>event. (start event, allDay event)) (parseICal feedText)
     = [(''2024-01-01'', True), (''2024-01-03T09:00:00'', False), (''2024-01-04'', False)]
   \<and> (\<exists>event v. parseEventBlock 1 (split feedText ''BEGIN:VEVENT'' ! 1) = Some event
         \<and> regexCapture ''DTSTART'' '';:''
              (substring (split feedText ''BEGIN:VEVENT'' ! 1) 0
                 (nat (indexOf (split feedText ''BEGIN:VEVENT'' ! 1) ''END:VEVENT''))) = Some v
         \<and> allDay event = (length (trim v) = 8))"
proof -
  let ?block = "split feedText ''BEGIN:VEVENT'' ! 1"
  have m: "map (\<lambda>event. (start event, allDay event)) (parseICal feedText)
     = [(''2024-01-01'', True), (''2024-01-03T09:00:00'', False), (''2024-01-04'', False)]"
    by code_simp
  have "parseEventBlock 1 ?block \<noteq> None"
    by code_simp
  then obtain event where p: "parseEventBlock 1 ?block = Some event"
    by blast
  with allDay_iff_eight_characters [of 1 ?block event]
  obtain v where "regexCapture ''DTSTART'' '';:''
      (substring ?block 0 (nat (indexOf ?block ''END:VEVENT''))) = Some v
      \<and> allDay event = (length (trim v) = 8)"
    by blast
  with m p show ?thesis
    by blast
qed

section \<open>Properties of the adapters\<close>

lemma fetchICalEvents_eq:
  "fetchICalEvents w url s =
     (Inr (case fetchICalEvents_try w url of Inl e \<Rightarrow> None | Inr evs \<Rightarrow> Some evs),
      s\<lparr>requests := requests s @ [ICalRequest url]\<rparr>)"
  by (simp add: fetchICalEvents_def Let_def split: sum.splits)

lemma fetchCalendarEvents_eq:
  "fetchCalendarEvents w calId key maxRes s =
     (Inr (case fetchCalendarEvents_try w calId key maxRes of
             Inl e \<Rightarrow> None | Inr evs \<Rightarrow> Some evs),
      s\<lparr>requests := requests s @ [EventsRequest (eventsQuery w calId key maxRes)]\<rparr>)"
  by (simp add: fetchCalendarEvents_def Let_def split: sum.splits)

lemma split_no_separator:
  "sep \<noteq> [] \<Longrightarrow> \<not> includes_str text sep \<Longrightarrow> split text sep = [text]"
  by (subst split.simps) (simp add: includes_str_def)

lemma parseICal_no_block: "\<not> includes_str text ''BEGIN:VEVENT'' \<Longrightarrow> parseICal text = []"
  by (simp add: parseICal_def split_no_separator)

text \<open>
  Claim C7: for either adapter, a fetch that fails (the request is rejected, by a
  network error or by the render-cancellation signal, or the response has a non-success
  status) yields \<open>null\<close>, never an empty list; a successful response with zero items
  yields the empty list, never \<open>null\<close>. Zero items are a feed text without
  \<open>BEGIN:VEVENT\<close>, and an \<open>items\<close> that is absent or empty.
\<close>

theorem adapters_null_or_list:
  "(\<forall>e. fetch_ical w url = Inl e \<longrightarrow> fst (fetchICalEvents w url s) = Inr None)
   \<and> (\<forall>st b. fetch_ical w url = Inr (Response False st b)
         \<longrightarrow> fst (fetchICalEvents w url s) = Inr None)
   \<and> (\<forall>st text. fetch_ical w url = Inr (Response True st (Inr text))
         \<longrightarrow> fst (fetchICalEvents w url s) = Inr (Some (parseICal text)))
   \<and> (\<forall>st text. fetch_ical w url = Inr (Response True st (Inr text))
                  \<and> \<not> includes_str text ''BEGIN:VEVENT''
         \<longrightarrow> fst (fetchICalEvents w url s) = Inr (Some []))
   \<and> (\<forall>e. fetch_events w (eventsQuery w calId key maxRes) = Inl e
         \<longrightarrow> fst (fetchCalendarEvents w calId key maxRes s) = Inr None)
   \<and> (\<forall>st b. fetch_events w (eventsQuery w calId key maxRes) = Inr (Response False st b)
         \<longrightarrow> fst (fetchCalendarEvents w calId key maxRes s) = Inr None)
   \<and> (\<forall>st data.
         fetch_events w (eventsQuery w calId key maxRes) = Inr (Response True st (Inr data))
         \<longrightarrow> fst (fetchCalendarEvents w calId key maxRes s)
               = Inr (Some (case items data of None \<Rightarrow> []
                            | Some its \<Rightarrow> map transformEvent its)))
   \<and> (\<forall>st data.
         fetch_events w (eventsQuery w calId key maxRes) = Inr (Response True st (Inr data))
         \<and> (items data = None \<or> items data = Some [])
         \<longrightarrow> fst (fetchCalendarEvents w calId key maxRes s) = Inr (Some []))"
  by (auto simp add: fetchICalEvents_eq fetchICalEvents_try_def parseICal_no_block
      fetchCalendarEvents_eq fetchCalendarEvents_try_def split: option.splits)

text \<open>In the example world: a rejected feed request and a 404 give \<open>null\<close>, a feed without
  events gives the empty list; a rejected API request and a 403 give \<open>null\<close>, an API
  answer with no items gives the empty list.\<close>

theorem adapters_null_or_list_witness:
  "fetch_ical exampleWorld ''https://feed.example/down.ics'' = Inl (Error ''fetch failed'')
   \<and> fst (fetchICalEvents exampleWorld ''https://feed.example/down.ics'' emptySys) = Inr None
   \<and> fetch_ical exampleWorld ''https://feed.example/gone.ics''
       = Inr (Response False 404 (Inr ''Not Found''))
   \<and> fst (fetchICalEvents exampleWorld ''https://feed.example/gone.ics'' emptySys) = Inr None
   \<and> fetch_ical exampleWorld ''https://feed.example/empty.ics''
       = Inr (Response True 200 (Inr ''BEGIN:VCALENDAR\<newline>END:VCALENDAR''))
   \<and> \<not> includes_str ''BEGIN:VCALENDAR\<newline>END:VCALENDAR'' ''BEGIN:VEVENT''
   \<and> fst (fetchICalEvents exampleWorld ''https://feed.example/empty.ics'' emptySys)
       = Inr (Some [])
   \<and> fetch_events exampleWorld (eventsQuery exampleWorld ''other'' ''key'' 50)
       = Inl (Error ''fetch failed: prerender is complete'')
   \<and> fst (fetchCalendarEvents exampleWorld ''other'' ''key'' 50 emptySys) = Inr None
   \<and> fetch_events exampleWorld (eventsQuery exampleWorld ''private'' ''key'' 50)
       = Inr (Response False 403 (Inr \<lparr>items = None\<rparr>))
   \<and> fst (fetchCalendarEvents exampleWorld ''private'' ''key'' 50 emptySys) = Inr None
   \<and> fetch_events exampleWorld (eventsQuery exampleWorld ''empty'' ''key'' 50)
       = Inr (Response True 200 (Inr \<lparr>items = Some []\<rparr>))
   \<and> fst (fetchCalendarEvents exampleWorld ''empty'' ''key'' 50 emptySys) = Inr (Some [])"
proof -
  have h1: "fetch_ical exampleWorld ''https://feed.example/down.ics''
              = Inl (Error ''fetch failed'')"
    by code_simp
  have h2: "fetch_ical exampleWorld ''https://feed.example/gone.ics''
              = Inr (Response False 404 (Inr ''Not Found''))"
    by code_simp
  have h3: "fetch_ical exampleWorld ''https://feed.example/empty.ics''
              = Inr (Response True 200 (Inr ''BEGIN:VCALENDAR\<newline>END:VCALENDAR''))
            \<and> \<not> includes_str ''BEGIN:VCALENDAR\<newline>END:VCALENDAR'' ''BEGIN:VEVENT''"
    by code_simp
  have h4: "fetch_events exampleWorld (eventsQuery exampleWorld ''other'' ''key'' 50)
              = Inl (Error ''fetch failed: prerender is complete'')"
    by code_simp
  have h5: "fetch_events exampleWorld (eventsQuery exampleWorld ''private'' ''key'' 50)
              = Inr (Response False 403 (Inr \<lparr>items = None\<rparr>))"
    by code_simp
  have h6: "fetch_events exampleWorld (eventsQuery exampleWorld ''empty'' ''key'' 50)
              = Inr (Response True 200 (Inr \<lparr>items = Some []\<rparr>))"
    by code_simp
  have c1: "fst (fetchICalEvents exampleWorld ''https://feed.example/down.ics'' emptySys)
              = Inr None"
    using h1 adapters_null_or_list
      [of exampleWorld "''https://feed.example/down.ics''" emptySys "''other''" "''key''" 50]
    by blast
  have c2: "fst (fetchICalEvents exampleWorld ''https://feed.example/gone.ics'' emptySys)
              = Inr None"
    using h2 adapters_null_or_list
      [of exampleWorld "''https://feed.example/gone.ics''" emptySys "''private''" "''key''" 50]
    by blast
  have c3: "fst (fetchICalEvents exampleWorld ''https://feed.example/empty.ics'' emptySys)
              = Inr (Some [])"
    using h3 adapters_null_or_list
      [of exampleWorld "''https://feed.example/empty.ics''" emptySys "''empty''" "''key''" 50]
    by blast
  have c4: "fst (fetchCalendarEvents exampleWorld ''other'' ''key'' 50 emptySys) = Inr None"
    using h4 adapters_null_or_list
      [of exampleWorld "''https://feed.example/down.ics''" emptySys "''other''" "''key''" 50]
    by blast
  have c5: "fst (fetchCalendarEvents exampleWorld ''private'' ''key'' 50 emptySys) = Inr None"
    using h5 adapters_null_or_list
      [of exampleWorld "''https://feed.example/gone.ics''" emptySys "''private''" "''key''" 50]
    by blast
  have c6: "fst (fetchCalendarEvents exampleWorld ''empty'' ''key'' 50 emptySys)
              = Inr (Some [])"
    using h6 adapters_null_or_list
      [of exampleWorld "''https://feed.example/empty.ics''" emptySys "''empty''" "''key''" 50]
    by (simp add: google_calendar_response.defs)
  from h1 h2 h3 h4 h5 h6 c1 c2 c3 c4 c5 c6 show ?thesis
    by blast
qed

section \<open>Properties of source selection, cache and fallback\<close>

text \<open>
  Claim C4: source selection follows strict precedence. On both paths the requests sent
  are exactly: one feed request when a feed URL is present (and then no API request);
  otherwise one API request when an API key is present; otherwise none. With neither
  present the uncached path returns the empty event list without touching the state,
  the cacheable function throws without touching the state, and \<open>getData\<close> (with no
  entry in the cache) returns the empty event list with no request sent.
\<close>

theorem source_selection_precedence:
  "requests (snd (fetchCalendarDataNoCache w params s)) =
     requests s @
       (if resolve_icalUrl w params \<noteq> [] then [ICalRequest (resolve_icalUrl w params)]
        else if resolve_apiKey w params \<noteq> [] then
          [EventsRequest (eventsQuery w (resolve_calendarId params) (resolve_apiKey w params)
             (resolve_maxResults params))]
        else [])
   \<and> requests (snd (getCachedCalendarData_callback w params s)) =
     requests s @
       (if resolve_icalUrl w params \<noteq> [] then [ICalRequest (resolve_icalUrl w params)]
        else if resolve_apiKey w params \<noteq> [] then
          [EventsRequest (eventsQuery w (resolve_calendarId params) (resolve_apiKey w params)
             (resolve_maxResults params))]
        else [])
   \<and> (resolve_icalUrl w params = [] \<and> resolve_apiKey w params = [] \<longrightarrow>
        fetchCalendarDataNoCache w params s = (Inr \<lparr>events = [], startDate = clock w\<rparr>, s)
        \<and> getCachedCalendarData_callback w params s
            = (Inl (Error ''No calendar source provided - skip caching''), s)
        \<and> (cache s params = None \<longrightarrow>
             getData w params s = (Inr \<lparr>events = [], startDate = clock w\<rparr>, s)))"
  by (auto simp add: fetchCalendarDataNoCache_def getCachedCalendarData_callback_def Let_def
      fetchICalEvents_eq fetchCalendarEvents_eq getData_def getCachedCalendarData_def
      unstable_cache_def split: sum.splits option.splits)

text \<open>In the example world: parameters with a feed URL and an API key send the feed
  request only, parameters with an API key alone send the API request, and no
  parameters at all send nothing and give the empty list.\<close>

theorem source_selection_precedence_witness:
  "requests (snd (fetchCalendarDataNoCache exampleWorld
       (feedParams ''https://feed.example/week.ics'') emptySys))
     = [ICalRequest ''https://feed.example/week.ics'']
   \<and> requests (snd (getCachedCalendarData_callback exampleWorld (apiParams ''team'') emptySys))
     = [EventsRequest \<lparr>query_calendarId = ''team'', query_key = ''key'',
          query_timeMin = 1704063600000, query_timeMax = 1704754799999,
          query_maxResults = 50\<rparr>]
   \<and> resolve_icalUrl exampleWorld None = [] \<and> resolve_apiKey exampleWorld None = []
   \<and> cache emptySys None = None
   \<and> getData exampleWorld None emptySys
       = (Inr \<lparr>events = [], startDate = 1704283200000\<rparr>, emptySys)"
proof -
  have h: "resolve_icalUrl exampleWorld None = [] \<and> resolve_apiKey exampleWorld None = []
           \<and> cache emptySys None = None"
    by code_simp
  have f: "requests emptySys @
       (if resolve_icalUrl exampleWorld (feedParams ''https://feed.example/week.ics'') \<noteq> []
        then [ICalRequest (resolve_icalUrl exampleWorld
                (feedParams ''https://feed.example/week.ics''))]
        else if resolve_apiKey exampleWorld (feedParams ''https://feed.example/week.ics'') \<noteq> []
        then [EventsRequest (eventsQuery exampleWorld
                (resolve_calendarId (feedParams ''https://feed.example/week.ics''))
                (resolve_apiKey exampleWorld (feedParams ''https://feed.example/week.ics''))
                (resolve_maxResults (feedParams ''https://feed.example/week.ics'')))]
        else [])
      = [ICalRequest ''https://feed.example/week.ics'']"
    by code_simp
  have a: "requests emptySys @
       (if resolve_icalUrl exampleWorld (apiParams ''team'') \<noteq> []
        then [ICalRequest (resolve_icalUrl exampleWorld (apiParams ''team''))]
        else if resolve_apiKey exampleWorld (apiParams ''team'') \<noteq> []
        then [EventsRequest (eventsQuery exampleWorld
                (resolve_calendarId (apiParams ''team''))
                (resolve_apiKey exampleWorld (apiParams ''team''))
                (resolve_maxResults (apiParams ''team'')))]
        else [])
      = [EventsRequest \<lparr>query_calendarId = ''team'', query_key = ''key'',
          query_timeMin = 1704063600000, query_timeMax = 1704754799999,
          query_maxResults = 50\<rparr>]"
    by code_simp
  have c: "clock exampleWorld = 1704283200000"
    by code_simp
  have r1: "requests (snd (fetchCalendarDataNoCache exampleWorld
       (feedParams ''https://feed.example/week.ics'') emptySys))
     = [ICalRequest ''https://feed.example/week.ics'']"
    using source_selection_precedence
      [of exampleWorld "feedParams ''https://feed.example/week.ics''" emptySys]
    by (simp only: f)
  have r2: "requests (snd (getCachedCalendarData_callback exampleWorld
       (apiParams ''team'') emptySys))
     = [EventsRequest \<lparr>query_calendarId = ''team'', query_key = ''key'',
          query_timeMin = 1704063600000, query_timeMax = 1704754799999,
          query_maxResults = 50\<rparr>]"
    using source_selection_precedence [of exampleWorld "apiParams ''team''" emptySys]
    by (simp only: a)
  have r3: "getData exampleWorld None emptySys
       = (Inr \<lparr>events = [], startDate = clock exampleWorld\<rparr>, emptySys)"
    using h source_selection_precedence [of exampleWorld None emptySys]
    by blast
  from h r1 r2 r3 c show ?thesis
    by simp
qed

text \<open>
  Claim C2 as the code has it: the cacheable path throws, and nothing is stored, for an
  unconfigured source and for an adapter result of \<open>null\<close>. Every adapter result that
  is a list, the empty list included, is filtered to the week and returned, and what
  the function returns is stored when no entry is there yet.
\<close>

theorem cacheable_path_declines:
  "(resolve_icalUrl w params = [] \<and> resolve_apiKey w params = [] \<longrightarrow>
      getCachedCalendarData_callback w params s
        = (Inl (Error ''No calendar source provided - skip caching''), s))
   \<and> (resolve_icalUrl w params \<noteq> [] \<longrightarrow>
        (fst (fetchICalEvents w (resolve_icalUrl w params) s) = Inr None \<longrightarrow>
           fst (getCachedCalendarData_callback w params s)
             = Inl (Error ''Empty or invalid data - skip caching''))
        \<and> (\<forall>evs. fst (fetchICalEvents w (resolve_icalUrl w params) s) = Inr (Some evs) \<longrightarrow>
              fst (getCachedCalendarData_callback w params s) = Inr (weekData w evs)))
   \<and> (resolve_icalUrl w params = [] \<and> resolve_apiKey w params \<noteq> [] \<longrightarrow>
        (fst (fetchCalendarEvents w (resolve_calendarId params) (resolve_apiKey w params)
                (resolve_maxResults params) s) = Inr None \<longrightarrow>
           fst (getCachedCalendarData_callback w params s)
             = Inl (Error ''Empty or invalid data - skip caching''))
        \<and> (\<forall>evs. fst (fetchCalendarEvents w (resolve_calendarId params)
                        (resolve_apiKey w params) (resolve_maxResults params) s)
                    = Inr (Some evs) \<longrightarrow>
              fst (getCachedCalendarData_callback w params s) = Inr (weekData w evs)))
   \<and> (\<forall>e. fst (getCachedCalendarData w params s) = Inl e \<longrightarrow>
          cache (snd (getCachedCalendarData w params s)) = cache s)
   \<and> (\<forall>v. cache s params = None \<and> fst (getCachedCalendarData w params s) = Inr v \<longrightarrow>
          cache (snd (getCachedCalendarData w params s)) params
            = Some \<lparr>entry_value = v, entry_time = clock w\<rparr>)"
  by (auto simp add: getCachedCalendarData_callback_def Let_def
      fetchICalEvents_eq fetchCalendarEvents_eq getCachedCalendarData_def
      unstable_cache_def split: sum.splits option.splits)

text \<open>In the example world: with no source the function throws; with the calendar that
  answers 403 the adapter gives \<open>null\<close>, the function throws and the cache stays as it
  was.\<close>

theorem cacheable_path_declines_witness:
  "resolve_icalUrl exampleWorld None = [] \<and> resolve_apiKey exampleWorld None = []
   \<and> getCachedCalendarData_callback exampleWorld None emptySys
       = (Inl (Error ''No calendar source provided - skip caching''), emptySys)
   \<and> resolve_icalUrl exampleWorld (apiParams ''private'') = []
   \<and> resolve_apiKey exampleWorld (apiParams ''private'') \<noteq> []
   \<and> fst (fetchCalendarEvents exampleWorld (resolve_calendarId (apiParams ''private''))
            (resolve_apiKey exampleWorld (apiParams ''private''))
            (resolve_maxResults (apiParams ''private'')) emptySys) = Inr None
   \<and> fst (getCachedCalendarData_callback exampleWorld (apiParams ''private'') emptySys)
       = Inl (Error ''Empty or invalid data - skip caching'')
   \<and> fst (getCachedCalendarData exampleWorld (apiParams ''private'') emptySys)
       = Inl (Error ''Empty or invalid data - skip caching'')
   \<and> cache (snd (getCachedCalendarData exampleWorld (apiParams ''private'') emptySys))
       = cache emptySys"
proof -
  have h1: "resolve_icalUrl exampleWorld None = [] \<and> resolve_apiKey exampleWorld None = []"
    by code_simp
  have h2: "resolve_icalUrl exampleWorld (apiParams ''private'') = []
            \<and> resolve_apiKey exampleWorld (apiParams ''private'') \<noteq> []"
    by code_simp
  have h3: "fst (fetchCalendarEvents exampleWorld (resolve_calendarId (apiParams ''private''))
            (resolve_apiKey exampleWorld (apiParams ''private''))
            (resolve_maxResults (apiParams ''private'')) emptySys) = Inr None"
    by code_simp
  have h4: "fst (getCachedCalendarData exampleWorld (apiParams ''private'') emptySys)
       = Inl (Error ''Empty or invalid data - skip caching'')"
    by code_simp
  have c1: "getCachedCalendarData_callback exampleWorld None emptySys
       = (Inl (Error ''No calendar source provided - skip caching''), emptySys)"
    using h1 cacheable_path_declines [of exampleWorld None emptySys]
    by blast
  have c2: "fst (getCachedCalendarData_callback exampleWorld (apiParams ''private'') emptySys)
       = Inl (Error ''Empty or invalid data - skip caching'')
     \<and> cache (snd (getCachedCalendarData exampleWorld (apiParams ''private'') emptySys))
       = cache emptySys"
    using h2 h3 h4 cacheable_path_declines [of exampleWorld "apiParams ''private''" emptySys]
    by blast
  from h1 h2 h3 h4 c1 c2 show ?thesis
    by blast
qed

text \<open>
  Claim C2 as stated fails for the empty event list: the calendar \<open>empty\<close> of the
  example world answers with zero items, the adapter returns the empty list, the
  cacheable function returns \<open>{events: [], startDate}\<close> instead of throwing, and the
  cache stores it.
\<close>

theorem empty_list_is_cached:
  "fst (fetchCalendarEvents exampleWorld ''empty'' ''key'' 50 emptySys) = Inr (Some [])
   \<and> fst (getCachedCalendarData_callback exampleWorld (apiParams ''empty'') emptySys)
       = Inr \<lparr>events = [], startDate = 1704063600000\<rparr>
   \<and> cache (snd (getCachedCalendarData exampleWorld (apiParams ''empty'') emptySys))
        (apiParams ''empty'')
       = Some \<lparr>entry_value = \<lparr>events = [], startDate = 1704063600000\<rparr>,
               entry_time = 1704283200000\<rparr>"
  by code_simp

lemma fetchCalendarDataNoCache_cases:
  "\<exists>d. fst (fetchCalendarDataNoCache w params s) = Inr d
        \<and> (d = \<lparr>events = [], startDate = clock w\<rparr> \<or> (\<exists>evs. d = weekData w evs))"
  by (auto simp add: fetchCalendarDataNoCache_def Let_def fetchICalEvents_eq
      fetchCalendarEvents_eq split: sum.splits)

lemma getCachedCalendarData_callback_cases:
  "(\<exists>e. fst (getCachedCalendarData_callback w params s) = Inl e)
   \<or> (\<exists>evs. fst (getCachedCalendarData_callback w params s) = Inr (weekData w evs))"
  by (auto simp add: getCachedCalendarData_callback_def Let_def fetchICalEvents_eq
      fetchCalendarEvents_eq split: sum.splits)

text \<open>
  Claim C3: \<open>getData\<close> never raises an error to its caller. For every world (every
  outcome of the network), every parameter object and every state of the cache, its
  promise is fulfilled with an object \<open>{events, startDate}\<close>: a fresh cache entry, the
  events of an adapter filtered to the week, or in the worst case the empty event list
  with the clock reading as \<open>startDate\<close>.
\<close>

theorem getData_always_returns:
  "\<exists>d. fst (getData w params s) = Inr d
        \<and> (d = \<lparr>events = [], startDate = clock w\<rparr>
            \<or> (\<exists>evs. d = weekData w evs)
            \<or> (\<exists>entry. cache s params = Some entry \<and> d = entry_value entry))"
proof (cases "getCachedCalendarData w params s")
  case (Pair r s')
  show ?thesis
  proof (cases r)
    case (Inl e)
    with Pair have "getData w params s = fetchCalendarDataNoCache w params s'"
      by (simp add: getData_def)
    with fetchCalendarDataNoCache_cases [of w params s'] show ?thesis
      by auto
  next
    case (Inr v)
    with Pair have g: "fst (getData w params s) = Inr v"
      by (simp add: getData_def)
    from Pair Inr getCachedCalendarData_callback_cases [of w params s]
    have "(\<exists>evs. v = weekData w evs)
          \<or> (\<exists>entry. cache s params = Some entry \<and> v = entry_value entry)"
      by (auto simp add: getCachedCalendarData_def unstable_cache_def Let_def
          split: option.splits prod.splits sum.splits if_splits)
    with g show ?thesis
      by auto
  qed
qed

text \<open>
  Claim C9: the week-window filter is idempotent. For every event list and every
  window, filtering a filtered list against the same window returns the same list; so
  does filtering the events of a week's data against the week again.
\<close>

theorem filterWeek_idempotent:
  "filterWeek w weekStart weekEnd (filterWeek w weekStart weekEnd evs)
     = filterWeek w weekStart weekEnd evs
   \<and> events (weekData w (events (weekData w evs))) = events (weekData w evs)"
  by (simp add: filterWeek_def weekData_def Let_def)

section \<open>Properties of the grid layout\<close>

lemma HourFromTime_MakeDate:
  assumes "0 \<le> h" "h \<le> 23" "0 \<le> mi" "mi \<le> 59" "0 \<le> s" "s \<le> 59"
  shows "HourFromTime (MakeDate day (MakeTime h mi s 0)) = h"
proof -
  let ?r = "mi * 60000 + s * 1000"
  have r: "0 \<le> ?r" "?r < 3600000"
    using assms by auto
  have "MakeDate day (MakeTime h mi s 0) = ?r + (day * 24 + h) * 3600000"
    by (simp add: MakeDate_def MakeTime_def msPerDay_def msPerHour_def msPerMinute_def
        msPerSecond_def algebra_simps)
  then have "MakeDate day (MakeTime h mi s 0) div msPerHour = day * 24 + h"
    using r by (simp add: msPerHour_def div_pos_pos_trivial)
  moreover have "(day * 24 + h) mod 24 = h mod 24"
    by (simp only: mod_mult_self3)
  moreover have "h mod 24 = h"
    using assms by simp
  ultimately show ?thesis
    by (simp add: HourFromTime_def)
qed

lemma MinFromTime_MakeDate:
  assumes "0 \<le> h" "h \<le> 23" "0 \<le> mi" "mi \<le> 59" "0 \<le> s" "s \<le> 59"
  shows "MinFromTime (MakeDate day (MakeTime h mi s 0)) = mi"
proof -
  let ?r = "s * 1000"
  have r: "0 \<le> ?r" "?r < 60000"
    using assms by auto
  have "MakeDate day (MakeTime h mi s 0) = ?r + ((day * 24 + h) * 60 + mi) * 60000"
    by (simp add: MakeDate_def MakeTime_def msPerDay_def msPerHour_def msPerMinute_def
        msPerSecond_def algebra_simps)
  then have "MakeDate day (MakeTime h mi s 0) div msPerMinute = (day * 24 + h) * 60 + mi"
    using r by (simp add: msPerMinute_def div_pos_pos_trivial)
  moreover have "((day * 24 + h) * 60 + mi) mod 60 = mi mod 60"
    by (simp only: mod_mult_self3)
  moreover have "mi mod 60 = mi"
    using assms by simp
  ultimately show ?thesis
    by (simp add: MinFromTime_def)
qed

text \<open>A date-time string without offset is read as local time and its hour and minute
  are read back in local time: \<open>getHours\<close> and \<open>getMinutes\<close> are the \<open>HH\<close> and \<open>mm\<close> of
  the string, whatever the offset of the process.\<close>

lemma local_date_time_fields:
  assumes "\<not> matchesPattern ''dddd-dd-dd'' str"
    and "matchesPattern ''dddd-dd-ddTdd:dd:dd'' str"
    and "legalFields (Number (substring str 0 4)) (Number (substring str 5 7))
           (Number (substring str 8 10)) h mi sec"
    and "h = Number (substring str 11 13)" and "mi = Number (substring str 14 16)"
    and "sec = Number (substring str 17 19)"
    and "0 \<le> h" and "0 \<le> mi" and "0 \<le> sec"
  shows "\<exists>t. parseEventDate w str = Some t \<and> getHours (tza w) t = h
             \<and> getMinutes (tza w) t = mi"
proof -
  let ?day = "MakeDay (Number (substring str 0 4)) (Number (substring str 5 7) - 1)
                (Number (substring str 8 10))"
  have b: "h \<le> 23 \<and> mi \<le> 59 \<and> sec \<le> 59"
    using assms(3) by (simp add: legalFields_def)
  have "parseEventDate w str = Some (UTC (tza w) (MakeDate ?day (MakeTime h mi sec 0)))"
    using assms(1-6) by (simp add: parseEventDate_def Date_parse_def Let_def)
  moreover have "getHours (tza w) (UTC (tza w) (MakeDate ?day (MakeTime h mi sec 0))) = h"
    using assms(7-9) b by (simp add: getHours_def Local_UTC HourFromTime_MakeDate)
  moreover have "getMinutes (tza w) (UTC (tza w) (MakeDate ?day (MakeTime h mi sec 0))) = mi"
    using assms(7-9) b by (simp add: getMinutes_def Local_UTC MinFromTime_MakeDate)
  ultimately show ?thesis
    by simp
qed

lemma getEventStyle_valid:
  assumes "parseEventDate w (start e) = Some ts"
    and "parseEventDate w (event_end e) = Some te"
  shows "getEventStyle w e =
    \<lparr>style_top = Some ((getHours (tza w) ts - 7) * 2
                        + (if getMinutes (tza w) ts \<ge> 30 then 1 else 0)),
     style_height = Some (max 1
        ((getHours (tza w) te - 7) * 2 + (if getMinutes (tza w) te \<ge> 30 then 1 else 0)
         - ((getHours (tza w) ts - 7) * 2 + (if getMinutes (tza w) ts \<ge> 30 then 1 else 0))))\<rparr>"
  using assms
  by (simp add: getEventStyle_def Let_def num_add_def num_sub_def num_mul_def num_ge_def
      Math_max_def)

lemma getEventStyle_top:
  assumes "parseEventDate w (start e) = Some ts"
  shows "style_top (getEventStyle w e)
           = Some ((getHours (tza w) ts - 7) * 2
                   + (if getMinutes (tza w) ts \<ge> 30 then 1 else 0))"
  using assms
  by (simp add: getEventStyle_def Let_def num_add_def num_sub_def num_mul_def num_ge_def)

lemma Math_max_lower: "Math_max (Some a) x = Some h \<Longrightarrow> a \<le> h"
  by (cases x) (auto simp add: Math_max_def)

lemma style_height_ge_1:
  assumes "style_height (getEventStyle w e) = Some h"
  shows "1 \<le> h"
proof -
  have "\<exists>x. style_height (getEventStyle w e) = Math_max (Some 1) x"
    by (rule exI, simp only: getEventStyle_def Let_def event_style.select_convs)
  with assms obtain x where "Math_max (Some 1) x = Some h"
    by auto
  then show ?thesis
    by (rule Math_max_lower)
qed

lemma nine_o_clock:
  "\<exists>t. parseEventDate w ''2024-01-03T09:00:00'' = Some t \<and> getHours (tza w) t = 9
        \<and> getMinutes (tza w) t = 0"
proof (rule local_date_time_fields)
  let ?str = "''2024-01-03T09:00:00''"
  show "\<not> matchesPattern ''dddd-dd-dd'' ?str"
    by code_simp
  show "matchesPattern ''dddd-dd-ddTdd:dd:dd'' ?str"
    by code_simp
  show "legalFields (Number (substring ?str 0 4)) (Number (substring ?str 5 7))
           (Number (substring ?str 8 10)) 9 0 0"
    by code_simp
  show "9 = Number (substring ?str 11 13)" "0 = Number (substring ?str 14 16)"
    "0 = Number (substring ?str 17 19)"
    by code_simp+
qed simp_all

lemma ten_o_clock:
  "\<exists>t. parseEventDate w ''2024-01-03T10:00:00'' = Some t \<and> getHours (tza w) t = 10
        \<and> getMinutes (tza w) t = 0"
proof (rule local_date_time_fields)
  let ?str = "''2024-01-03T10:00:00''"
  show "\<not> matchesPattern ''dddd-dd-dd'' ?str"
    by code_simp
  show "matchesPattern ''dddd-dd-ddTdd:dd:dd'' ?str"
    by code_simp
  show "legalFields (Number (substring ?str 0 4)) (Number (substring ?str 5 7))
           (Number (substring ?str 8 10)) 10 0 0"
    by code_simp
  show "10 = Number (substring ?str 11 13)" "0 = Number (substring ?str 14 16)"
    "0 = Number (substring ?str 17 19)"
    by code_simp+
qed simp_all

lemma six_o_clock:
  "\<exists>t. parseEventDate w ''2024-01-03T06:00:00'' = Some t \<and> getHours (tza w) t = 6
        \<and> getMinutes (tza w) t = 0"
proof (rule local_date_time_fields)
  let ?str = "''2024-01-03T06:00:00''"
  show "\<not> matchesPattern ''dddd-dd-dd'' ?str"
    by code_simp
  show "matchesPattern ''dddd-dd-ddTdd:dd:dd'' ?str"
    by code_simp
  show "legalFields (Number (substring ?str 0 4)) (Number (substring ?str 5 7))
           (Number (substring ?str 8 10)) 6 0 0"
    by code_simp
  show "6 = Number (substring ?str 11 13)" "0 = Number (substring ?str 14 16)"
    "0 = Number (substring ?str 17 19)"
    by code_simp+
qed simp_all

text \<open>
  Claim C8: for every timed event (start and end parse to dates \<open>ts\<close> and \<open>te\<close>) the
  layout computes \<open>offset = (startHour - 7) * 2 + (startMinute >= 30 ? 1 : 0)\<close>,
  \<open>endOffset\<close> the same way from the end, and \<open>height = max(1, endOffset - offset)\<close>;
  the height is never zero, for any event at all; and an event from 09:00 to 10:00
  has offset 4 and height 2, in every world.
\<close>

theorem getEventStyle_offset_height:
  "(\<forall>ts te. parseEventDate w (start e) = Some ts \<and> parseEventDate w (event_end e) = Some te
      \<longrightarrow> style_top (getEventStyle w e)
            = Some ((getHours (tza w) ts - 7) * 2
                    + (if getMinutes (tza w) ts \<ge> 30 then 1 else 0))
          \<and> style_height (getEventStyle w e)
            = Some (max 1
                ((getHours (tza w) te - 7) * 2 + (if getMinutes (tza w) te \<ge> 30 then 1 else 0)
                 - ((getHours (tza w) ts - 7) * 2
                    + (if getMinutes (tza w) ts \<ge> 30 then 1 else 0)))))
   \<and> style_height (getEventStyle w e) \<noteq> Some 0
   \<and> (start e = ''2024-01-03T09:00:00'' \<and> event_end e = ''2024-01-03T10:00:00''
        \<longrightarrow> getEventStyle w e = \<lparr>style_top = Some 4, style_height = Some 2\<rparr>)"
proof (intro conjI allI impI)
  fix ts te
  assume "parseEventDate w (start e) = Some ts \<and> parseEventDate w (event_end e) = Some te"
  then have v: "getEventStyle w e =
    \<lparr>style_top = Some ((getHours (tza w) ts - 7) * 2
                        + (if getMinutes (tza w) ts \<ge> 30 then 1 else 0)),
     style_height = Some (max 1
        ((getHours (tza w) te - 7) * 2 + (if getMinutes (tza w) te \<ge> 30 then 1 else 0)
         - ((getHours (tza w) ts - 7) * 2 + (if getMinutes (tza w) ts \<ge> 30 then 1 else 0))))\<rparr>"
    by (simp add: getEventStyle_valid)
  show "style_top (getEventStyle w e)
            = Some ((getHours (tza w) ts - 7) * 2
                    + (if getMinutes (tza w) ts \<ge> 30 then 1 else 0))"
    by (simp add: v)
  show "style_height (getEventStyle w e)
            = Some (max 1
                ((getHours (tza w) te - 7) * 2 + (if getMinutes (tza w) te \<ge> 30 then 1 else 0)
                 - ((getHours (tza w) ts - 7) * 2
                    + (if getMinutes (tza w) ts \<ge> 30 then 1 else 0))))"
    by (simp add: v)
next
  show "style_height (getEventStyle w e) \<noteq> Some 0"
    using style_height_ge_1 [of w e 0] by auto
next
  assume s: "start e = ''2024-01-03T09:00:00'' \<and> event_end e = ''2024-01-03T10:00:00''"
  obtain ts where ts: "parseEventDate w ''2024-01-03T09:00:00'' = Some ts"
    "getHours (tza w) ts = 9" "getMinutes (tza w) ts = 0"
    using nine_o_clock by blast
  obtain te where te: "parseEventDate w ''2024-01-03T10:00:00'' = Some te"
    "getHours (tza w) te = 10" "getMinutes (tza w) te = 0"
    using ten_o_clock by blast
  show "getEventStyle w e = \<lparr>style_top = Some 4, style_height = Some 2\<rparr>"
    using s ts te getEventStyle_valid [of w e ts te] by simp
qed

text \<open>The meeting from 09:00 to 10:00 in the example world (UTC+1).\<close>

theorem getEventStyle_offset_height_witness:
  "parseEventDate exampleWorld
       (start (timedEvent ''2024-01-03T09:00:00'' ''2024-01-03T10:00:00''))
     = Some 1704268800000
   \<and> parseEventDate exampleWorld
       (event_end (timedEvent ''2024-01-03T09:00:00'' ''2024-01-03T10:00:00''))
     = Some 1704272400000
   \<and> start (timedEvent ''2024-01-03T09:00:00'' ''2024-01-03T10:00:00'')
       = ''2024-01-03T09:00:00''
   \<and> event_end (timedEvent ''2024-01-03T09:00:00'' ''2024-01-03T10:00:00'')
       = ''2024-01-03T10:00:00''
   \<and> getEventStyle exampleWorld (timedEvent ''2024-01-03T09:00:00'' ''2024-01-03T10:00:00'')
       = \<lparr>style_top = Some 4, style_height = Some 2\<rparr>"
proof -
  let ?e = "timedEvent ''2024-01-03T09:00:00'' ''2024-01-03T10:00:00''"
  have p: "parseEventDate exampleWorld (start ?e) = Some 1704268800000
           \<and> parseEventDate exampleWorld (event_end ?e) = Some 1704272400000"
    by code_simp
  have s: "start ?e = ''2024-01-03T09:00:00'' \<and> event_end ?e = ''2024-01-03T10:00:00''"
    by (simp add: timedEvent_def)
  from s getEventStyle_offset_height [of exampleWorld ?e]
  have "getEventStyle exampleWorld ?e = \<lparr>style_top = Some 4, style_height = Some 2\<rparr>"
    by blast
  with p s show ?thesis
    by blast
qed

text \<open>
  Claim C10: for every timed event whose start is earlier than 07:00, \<open>getEventStyle\<close>
  returns a negative top offset, the unclamped value of the formula; a 06:00 start
  yields -2. The height stays at least 1: it is at least 1 whenever the end parses to a
  date, and it is never a number below 1.
\<close>

theorem getEventStyle_early_start:
  "(\<forall>ts. parseEventDate w (start e) = Some ts \<and> getHours (tza w) ts < 7
      \<longrightarrow> (\<exists>k. style_top (getEventStyle w e) = Some k \<and> k < 0
                \<and> k = (getHours (tza w) ts - 7) * 2
                      + (if getMinutes (tza w) ts \<ge> 30 then 1 else 0))
          \<and> (\<forall>te. parseEventDate w (event_end e) = Some te
                \<longrightarrow> (\<exists>h. style_height (getEventStyle w e) = Some h \<and> 1 \<le> h)))
   \<and> (start e = ''2024-01-03T06:00:00'' \<longrightarrow> style_top (getEventStyle w e) = Some (- 2))
   \<and> (\<forall>h. style_height (getEventStyle w e) = Some h \<longrightarrow> 1 \<le> h)"
proof (intro conjI allI impI)
  fix ts
  assume a: "parseEventDate w (start e) = Some ts \<and> getHours (tza w) ts < 7"
  then have "style_top (getEventStyle w e)
           = Some ((getHours (tza w) ts - 7) * 2
                   + (if getMinutes (tza w) ts \<ge> 30 then 1 else 0))"
    by (simp add: getEventStyle_top)
  moreover have "(getHours (tza w) ts - 7) * 2
                   + (if getMinutes (tza w) ts \<ge> 30 then 1 else 0) < 0"
    using a by auto
  ultimately show "\<exists>k. style_top (getEventStyle w e) = Some k \<and> k < 0
                \<and> k = (getHours (tza w) ts - 7) * 2
                      + (if getMinutes (tza w) ts \<ge> 30 then 1 else 0)"
    by simp
next
  fix ts te
  assume "parseEventDate w (start e) = Some ts \<and> getHours (tza w) ts < 7"
    and "parseEventDate w (event_end e) = Some te"
  then have "\<exists>h. style_height (getEventStyle w e) = Some h"
    by (simp add: getEventStyle_valid)
  then show "\<exists>h. style_height (getEventStyle w e) = Some h \<and> 1 \<le> h"
    using style_height_ge_1 by blast
next
  assume s: "start e = ''2024-01-03T06:00:00''"
  obtain ts where ts: "parseEventDate w ''2024-01-03T06:00:00'' = Some ts"
    "getHours (tza w) ts = 6" "getMinutes (tza w) ts = 0"
    using six_o_clock by blast
  show "style_top (getEventStyle w e) = Some (- 2)"
    using s ts getEventStyle_top [of w e ts] by simp
next
  fix h
  assume "style_height (getEventStyle w e) = Some h"
  then show "1 \<le> h"
    by (rule style_height_ge_1)
qed

text \<open>An event from 06:00 to 06:30 in the example world: top -2, height 1.\<close>

theorem getEventStyle_early_start_witness:
  "parseEventDate exampleWorld
       (start (timedEvent ''2024-01-03T06:00:00'' ''2024-01-03T06:30:00''))
     = Some 1704258000000
   \<and> getHours (tza exampleWorld) 1704258000000 < 7
   \<and> parseEventDate exampleWorld
       (event_end (timedEvent ''2024-01-03T06:00:00'' ''2024-01-03T06:30:00''))
     = Some 1704259800000
   \<and> style_top (getEventStyle exampleWorld
        (timedEvent ''2024-01-03T06:00:00'' ''2024-01-03T06:30:00'')) = Some (- 2)
   \<and> (\<exists>h. style_height (getEventStyle exampleWorld
              (timedEvent ''2024-01-03T06:00:00'' ''2024-01-03T06:30:00'')) = Some h
          \<and> 1 \<le> h)"
proof -
  let ?e = "timedEvent ''2024-01-03T06:00:00'' ''2024-01-03T06:30:00''"
  have p: "parseEventDate exampleWorld (start ?e) = Some 1704258000000
           \<and> getHours (tza exampleWorld) 1704258000000 < 7
           \<and> parseEventDate exampleWorld (event_end ?e) = Some 1704259800000"
    by code_simp
  have s: "start ?e = ''2024-01-03T06:00:00''"
    by (simp add: timedEvent_def)
  from p s getEventStyle_early_start [of exampleWorld ?e]
  have "style_top (getEventStyle exampleWorld ?e) = Some (- 2)
        \<and> (\<exists>h. style_height (getEventStyle exampleWorld ?e) = Some h \<and> 1 \<le> h)"
    by blast
  with p show ?thesis
    by blast
qed

text \<open>With an end string that does not parse (here the empty string, which the API
  adapter writes for an item without end) the end is an Invalid Date and the height is
  \<open>NaN\<close>; the top is not affected.\<close>

lemma getEventStyle_unparsable_end:
  "getEventStyle exampleWorld (timedEvent ''2024-01-03T06:00:00'' [])
     = \<lparr>style_top = Some (- 2), style_height = None\<rparr>"
  by code_simp

end
